theory Spec2Isabelle
  imports Complex_Main "HOL-Library.Word" "HOL-Library.Dlist" "HOL-Library.Sublist"
begin

unbundle bit_operations_syntax

section \<open>Failures as values\<close>

text \<open>
  Every way in which the TypeScript of \<^verbatim>\<open>dom-utils.ts\<close> can stop without a value is a
  constructor: the \<^verbatim>\<open>InvalidCharacterError\<close> of \<^verbatim>\<open>atob\<close>, the \<^verbatim>\<open>RangeError\<close> of a
  \<^verbatim>\<open>DataView\<close> read outside its buffer, and an exception or promise rejection of a
  collaborator, carrying its message. A JavaScript string is a list of characters, each
  a code unit in 0..255: data URLs and base64 payloads are ASCII, a binary string holds
  bytes, and \<^verbatim>\<open>atob\<close> rejects any other code unit as it rejects every character outside
  its alphabet.
\<close>

datatype error = InvalidCharacterError | RangeError | Rejected string

section \<open>The platform's base64 decoder\<close>

text \<open>
  \<^verbatim>\<open>window.atob\<close> is the forgiving-base64 decoder of the HTML standard: ASCII whitespace
  is dropped, one or two trailing \<^verbatim>\<open>=\<close> are dropped when the length is a multiple of
  four, a length of 1 modulo 4 or a character outside the alphabet is an
  \<^verbatim>\<open>InvalidCharacterError\<close>, and the remaining sextets are packed into bytes, the 4 or 2
  surplus bits of an incomplete last group being discarded. The result is a binary string:
  one character of code 0..255 per byte.
\<close>

definition isAsciiWhitespace :: "char \<Rightarrow> bool" where
  "isAsciiWhitespace c =
     (let n = (of_char c :: nat) in n = 9 \<or> n = 10 \<or> n = 12 \<or> n = 13 \<or> n = 32)"

definition base64Index :: "char \<Rightarrow> nat option" where
  "base64Index c =
     (let n = (of_char c :: nat) in
      if 65 \<le> n \<and> n \<le> 90 then Some (n - 65)
      else if 97 \<le> n \<and> n \<le> 122 then Some (n - 71)
      else if 48 \<le> n \<and> n \<le> 57 then Some (n + 4)
      else if n = 43 then Some 62
      else if n = 47 then Some 63
      else None)"

definition stripPadding :: "string \<Rightarrow> string" where
  "stripPadding data =
     (if length data mod 4 = 0 \<and> data \<noteq> [] \<and> last data = CHR ''=''
      then (if butlast data \<noteq> [] \<and> last (butlast data) = CHR ''=''
            then butlast (butlast data) else butlast data)
      else data)"

fun decodeSextets :: "nat list \<Rightarrow> nat list" where
  "decodeSextets (a # b # c # d # rest) =
     (let n = ((a * 64 + b) * 64 + c) * 64 + d
      in n div 65536 # (n div 256) mod 256 # n mod 256 # decodeSextets rest)"
| "decodeSextets [a, b, c] =
     (let n = (a * 64 + b) * 64 + c in [n div 1024, (n div 4) mod 256])"
| "decodeSextets [a, b] = [(a * 64 + b) div 16]"
| "decodeSextets _ = []"

definition atob :: "string \<Rightarrow> error + string" where
  "atob s =
     (let data = stripPadding (filter (\<lambda>c. \<not> isAsciiWhitespace c) s) in
      if length data mod 4 = 1 then Inl InvalidCharacterError
      else case those (map base64Index data) of
             None \<Rightarrow> Inl InvalidCharacterError
           | Some sextets \<Rightarrow> Inr (map char_of (decodeSextets sextets)))"

section \<open>Typed arrays and data views\<close>

text \<open>
  A \<^verbatim>\<open>Uint8Array\<close> is a list of bytes. \<^verbatim>\<open>new DataView(buffer, byteOffset)\<close> is the
  buffer from \<^verbatim>\<open>byteOffset\<close> on and throws a \<^verbatim>\<open>RangeError\<close> when the offset lies
  beyond the buffer; a read that does not fit in the view throws a \<^verbatim>\<open>RangeError\<close>;
  \<^verbatim>\<open>getUint16\<close> without its little-endian flag reads big-endian.
\<close>

type_synonym DataView = "8 word list"

definition charCodeAt :: "char \<Rightarrow> 8 word" where
  "charCodeAt c = of_nat (of_char c)"

definition newDataView :: "8 word list \<Rightarrow> nat \<Rightarrow> error + DataView" where
  "newDataView buffer byteOffset =
     (if byteOffset \<le> length buffer then Inr (drop byteOffset buffer) else Inl RangeError)"

definition getUint8 :: "DataView \<Rightarrow> nat \<Rightarrow> error + 8 word" where
  "getUint8 dv i = (if i + 1 \<le> length dv then Inr (dv ! i) else Inl RangeError)"

definition getUint16 :: "DataView \<Rightarrow> nat \<Rightarrow> error + nat" where
  "getUint16 dv i =
     (if i + 2 \<le> length dv then Inr (256 * unat (dv ! i) + unat (dv ! (i + 1)))
      else Inl RangeError)"

section \<open>The animated GIF check\<close>

definition HEADER_LEN :: nat where
  "HEADER_LEN = 6"

definition LOGICAL_SCREEN_DESC_LEN :: nat where
  "LOGICAL_SCREEN_DESC_LEN = 7"

text \<open>
  \<^verbatim>\<open>dataUrl.replace(/^[^,]*,/, "")\<close>: everything up to and including the first comma is
  removed; a string with no comma is left as it is.
\<close>

definition dropThroughComma :: "string \<Rightarrow> string" where
  "dropThroughComma dataUrl =
     (if CHR '','' \<in> set dataUrl then tl (dropWhile (\<lambda>c. c \<noteq> CHR '','') dataUrl)
      else dataUrl)"

definition isAnimatedGif :: "string \<Rightarrow> error + bool" where
  "isAnimatedGif dataUrl =
     (let base64 = dropThroughComma dataUrl in
      case atob base64 of
        Inl e \<Rightarrow> Inl e
      | Inr binaryString \<Rightarrow>
         (let bytes = map charCodeAt binaryString in
          case newDataView bytes (HEADER_LEN + LOGICAL_SCREEN_DESC_LEN - 3) of
            Inl e \<Rightarrow> Inl e
          | Inr dv \<Rightarrow>
             (case getUint8 dv 0 of
                Inl e \<Rightarrow> Inl e
              | Inr globalColorTable \<Rightarrow>
                 (let globalColorTableSize =
                        (if globalColorTable AND 0x80 \<noteq> 0
                         then 3 * 2 ^ (unat (globalColorTable AND 0x7) + 1) else 0);
                      offset = 3 + globalColorTableSize
                  in case getUint8 dv offset of
                       Inl e \<Rightarrow> Inl e
                     | Inr extensionIntroducer \<Rightarrow>
                        (case getUint8 dv (offset + 1) of
                           Inl e \<Rightarrow> Inl e
                         | Inr graphicsConrolLabel \<Rightarrow>
                            (if extensionIntroducer AND 0x21 \<noteq> 0
                                \<and> graphicsConrolLabel AND 0xf9 \<noteq> 0
                             then (case getUint16 dv (offset + 4) of
                                     Inl e \<Rightarrow> Inl e
                                   | Inr delayTime \<Rightarrow> Inr (delayTime > 0))
                             else Inr False))))))"

section \<open>Images, classifications and collaborators\<close>

datatype ImageAssetType = Picture | Icon

text \<open>
  The class \<^verbatim>\<open>ResizableImage\<close>. Pixel sizes are the integers the image decoder reports.
  The aspect ratio is a JavaScript number (an IEEE double) or \<^verbatim>\<open>undefined\<close>: the type
  \<open>'num\<close> of such numbers is a parameter, and the three operations the code applies to
  them (truthiness, multiplication, \<^verbatim>\<open>Math.round\<close>) are collaborators below, so nothing
  is assumed about floating-point arithmetic, \<^verbatim>\<open>NaN\<close> or the infinities.
\<close>

record 'num ResizableImage =
  url :: string
  width :: int
  height :: int
  aspectRatio :: "'num option"

text \<open>
  What \<^verbatim>\<open>deriveImageAssetTypeAndUri\<close> returns when it returns an object. Record fields
  share one name space, so the field \<^verbatim>\<open>type\<close> is \<open>assetType\<close> here, and the fields of the
  next records carry the name of their object in front.
\<close>

record AssetClassification =
  dataUri :: string
  assetType :: ImageAssetType
  iconColor :: "string option"

text \<open>The type \<^verbatim>\<open>ImageAssetOpts\<close>: \<^verbatim>\<open>type\<close>, \<^verbatim>\<open>iconColor\<close> and \<^verbatim>\<open>name\<close>.\<close>

record ImageAssetOpts =
  optsType :: ImageAssetType
  optsIconColor :: "string option"
  optsName :: "string option"

text \<open>The object the \<^verbatim>\<open>parse-data-url\<close> package returns for a well-formed data URL.\<close>

record ParsedDataUrl =
  mediaType :: string
  contentType :: string
  base64 :: bool
  data :: string

text \<open>The two answers of the remote \<^verbatim>\<open>processSvg\<close> call, by their \<^verbatim>\<open>status\<close>.\<close>

datatype 'num ProcessSvgResponse =
    StatusFailure
  | StatusSuccess (resultXml: string) (resultAspectRatio: "'num option")

text \<open>
  The answer of the remote \<^verbatim>\<open>uploadImageFile\<close> call: \<^verbatim>\<open>dataUri\<close>, and the optional
  \<^verbatim>\<open>width\<close>, \<^verbatim>\<open>height\<close>, \<^verbatim>\<open>aspectRatio\<close> and \<^verbatim>\<open>warning\<close>.
\<close>

record 'num UploadedImage =
  uploadedDataUri :: string
  uploadedWidth :: "int option"
  uploadedHeight :: "int option"
  uploadedAspectRatio :: "'num option"
  warning :: "string option"

text \<open>The fields of a loaded \<^verbatim>\<open>img\<close> element that \<^verbatim>\<open>deriveImageSize\<close> reads.\<close>

record HTMLImageElement =
  naturalWidth :: int
  naturalHeight :: int
  imgWidth :: int
  imgHeight :: int

type_synonym Blob = string

text \<open>The last argument of \<^verbatim>\<open>maybeUploadImage\<close>: a \<^verbatim>\<open>File\<close>, of which only the name is read, or a string.\<close>

datatype FileOrString = IsFile (fileName: string) | IsString string

text \<open>
  What the functions do besides returning: the notifications shown to the user, the
  calls made to the backend and to the \<^verbatim>\<open>downscale\<close> package, and the two lines
  \<^verbatim>\<open>tryDownscale\<close> writes to the console (the payload length before, then either the
  length after with the old and new sizes, or the old size and the failure).
\<close>

datatype event =
    NotificationError string
  | NotificationWarn string
  | ProcessSvgCall string
  | UploadImageFileCall Blob
  | DownscaleCall string int int
  | LogDownscaled nat nat int int int int
  | LogFailedToDownscale nat int int error

text \<open>
  Everything \<^verbatim>\<open>dom-utils.ts\<close> imports or reaches through \<^verbatim>\<open>appCtx.api\<close> and the browser,
  and whose code is not part of the file, is a field of this record: the functions below
  take it as their first argument, and every theorem holds for every such record. A
  collaborator that can throw, or whose promise can reject, returns a sum. The SVG
  element type is a parameter; \<^verbatim>\<open>convertSvgToTextSized\<close> and \<^verbatim>\<open>clearExplicitColors\<close>
  change the element in place, so here they return the changed element. A JavaScript
  \<^verbatim>\<open>Set\<close> of strings is a duplicate-free list in insertion order. The last three fields
  are JavaScript's own operations on numbers: the truthiness of a number (false for 0 and
  for \<^verbatim>\<open>NaN\<close>), the product \<^verbatim>\<open>*\<close> and \<^verbatim>\<open>Math.round\<close>.
\<close>

record ('svg, 'num) env =
  parseDataUrl :: "string \<Rightarrow> ParsedDataUrl option"
  getParsedDataUrlData :: "ParsedDataUrl \<Rightarrow> error + string"
  parseSvgXml :: "string \<Rightarrow> error + 'svg"
  gatherSvgColors :: "'svg \<Rightarrow> string dlist"
  convertSvgToTextSized :: "'svg \<Rightarrow> 'svg"
  clearExplicitColors :: "'svg \<Rightarrow> 'svg"
  serializeToString :: "'svg \<Rightarrow> string"
  asSvgDataUrl :: "string \<Rightarrow> string"
  imageDataUriToBlob :: "string \<Rightarrow> error + Blob"
  processSvg :: "string \<Rightarrow> error + 'num ProcessSvgResponse"
  uploadImageFile :: "Blob \<Rightarrow> error + 'num UploadedImage"
  downscale :: "string \<Rightarrow> int \<Rightarrow> int \<Rightarrow> error + string"
  loadImage :: "string \<Rightarrow> error option + HTMLImageElement"
  ASPECT_RATIO_SCALE_FACTOR :: 'num
  numberIsTruthy :: "'num \<Rightarrow> bool"
  numberTimes :: "'num \<Rightarrow> 'num \<Rightarrow> 'num"
  mathRound :: "'num \<Rightarrow> 'num"

definition SVG_MEDIA_TYPE :: string where
  "SVG_MEDIA_TYPE = ''image/svg+xml''"

definition SVG_CONTENT_TYPE :: string where
  "SVG_CONTENT_TYPE = SVG_MEDIA_TYPE"

definition MaxImageDim :: int where
  "MaxImageDim = 4096"

definition DownscaleImageSizeThreshold :: int where
  "DownscaleImageSizeThreshold = 4 * 1024 * 1024"

section \<open>Sizing and downscaling\<close>

text \<open>
  The getters of \<^verbatim>\<open>ResizableImage\<close>. \<^verbatim>\<open>if (this.aspectRatio)\<close> holds when the aspect
  ratio is present and truthy as a number.
\<close>

definition scaledRoundedAspectRatio ::
  "('svg, 'num) env \<Rightarrow> 'num ResizableImage \<Rightarrow> 'num option" where
  "scaledRoundedAspectRatio env img =
     (case aspectRatio img of
        Some r \<Rightarrow>
          (if numberIsTruthy env r
           then Some (mathRound env (numberTimes env (ASPECT_RATIO_SCALE_FACTOR env) r))
           else aspectRatio img)
      | None \<Rightarrow> aspectRatio img)"

definition actualAspectRatio :: "'num ResizableImage \<Rightarrow> 'num option" where
  "actualAspectRatio img = aspectRatio img"

text \<open>
  \<^verbatim>\<open>deriveImageSize\<close> resolves from the \<^verbatim>\<open>onload\<close> handler and rejects from the
  \<^verbatim>\<open>onerror\<close> handler, with the handler's error when it has one and with its own message
  otherwise.
\<close>

definition deriveImageSize :: "('svg, 'num) env \<Rightarrow> string \<Rightarrow> error + int \<times> int" where
  "deriveImageSize env u =
     (case loadImage env u of
        Inr img \<Rightarrow>
          Inr (if naturalWidth img \<noteq> 0 then naturalWidth img else imgWidth img,
               if naturalHeight img \<noteq> 0 then naturalHeight img else imgHeight img)
      | Inl err \<Rightarrow>
          Inl (case err of
                 Some e \<Rightarrow> e
               | None \<Rightarrow> Rejected ''Browser cannot load this image - if you believe this is a valid image file, please share it with team@plasmic.app.''))"

text \<open>
  \<^verbatim>\<open>tryDownscale\<close> changes the image it is called on: it returns the image as it is after
  the call, with the events of the call. The \<^verbatim>\<open>try\<close> block assigns \<^verbatim>\<open>this.url\<close> before
  it awaits \<^verbatim>\<open>deriveImageSize\<close>, and the \<^verbatim>\<open>catch\<close> block only logs.
\<close>

definition tryDownscale ::
  "('svg, 'num) env \<Rightarrow> 'num ResizableImage \<Rightarrow> event list \<times> 'num ResizableImage" where
  "tryDownscale env this =
     (if width this < MaxImageDim \<and> height this < MaxImageDim
         \<and> int (length (url this)) < DownscaleImageSizeThreshold
      then ([], this)
      else
        (let targetWidth = (if width this > height this then min (width this) MaxImageDim else 0);
             targetHeight = (if width this \<le> height this then min (height this) MaxImageDim else 0);
             sizeBeforeDownscale = length (url this)
         in case downscale env (url this) targetWidth targetHeight of
              Inl e \<Rightarrow>
                ([DownscaleCall (url this) targetWidth targetHeight,
                  LogFailedToDownscale sizeBeforeDownscale (width this) (height this) e],
                 this)
            | Inr newUrl \<Rightarrow>
               (let this1 = this\<lparr>url := newUrl\<rparr> in
                case deriveImageSize env (url this1) of
                  Inl e \<Rightarrow>
                    ([DownscaleCall (url this) targetWidth targetHeight,
                      LogFailedToDownscale sizeBeforeDownscale (width this1) (height this1) e],
                     this1)
                | Inr newSize \<Rightarrow>
                    ([DownscaleCall (url this) targetWidth targetHeight,
                      LogDownscaled sizeBeforeDownscale (length (url this1))
                        (width this1) (height this1) (fst newSize) (snd newSize)],
                     this1\<lparr>width := fst newSize, height := snd newSize\<rparr>))))"

section \<open>Sanitizing a data URL\<close>

definition asSanitizedSvgUrl :: "('svg, 'num) env \<Rightarrow> string \<Rightarrow> event list \<times> (error + string option)" where
  "asSanitizedSvgUrl env xml =
     (case processSvg env xml of
        Inl e \<Rightarrow> ([ProcessSvgCall xml], Inl e)
      | Inr processed \<Rightarrow>
         (case processed of
            StatusFailure \<Rightarrow> ([ProcessSvgCall xml], Inr None)
          | StatusSuccess resXml resAspectRatio \<Rightarrow>
              ([ProcessSvgCall xml], Inr (Some (asSvgDataUrl env resXml)))))"

definition sanitizeImageDataUrl :: "('svg, 'num) env \<Rightarrow> string \<Rightarrow> event list \<times> (error + string option)" where
  "sanitizeImageDataUrl env dataUrl =
     (case parseDataUrl env dataUrl of
        Some parsed \<Rightarrow>
          (if mediaType parsed = SVG_MEDIA_TYPE
           then (case getParsedDataUrlData env parsed of
                   Inl e \<Rightarrow> ([], Inl e)
                 | Inr xml \<Rightarrow> asSanitizedSvgUrl env xml)
           else ([], Inr (Some dataUrl)))
      | None \<Rightarrow> ([], Inr (Some dataUrl)))"

section \<open>Classifying an image as icon or picture\<close>

text \<open>
  The second argument of \<^verbatim>\<open>deriveImageAssetTypeAndUri\<close> is an object with the one optional
  field \<^verbatim>\<open>type\<close>; it is passed here as that optional value. The result \<^verbatim>\<open>undefined\<close> is
  \<open>None\<close>. The branches are those of the source, in its order, the last branch of the
  SVG case included.
\<close>

definition deriveImageAssetTypeAndUri ::
  "('svg, 'num) env \<Rightarrow> 'num ResizableImage \<Rightarrow> ImageAssetType option
     \<Rightarrow> event list \<times> (error + AssetClassification option)" where
  "deriveImageAssetTypeAndUri env img type =
     (case parseDataUrl env (url img) of
        None \<Rightarrow> ([NotificationError ''Error loading image''], Inr None)
      | Some parsed \<Rightarrow>
          (if type = Some Picture
           then ([], Inr (Some \<lparr>dataUri = url img, assetType = Picture, iconColor = None\<rparr>))
           else if contentType parsed = SVG_CONTENT_TYPE
           then
             (case atob (data parsed) of
                Inl e \<Rightarrow> ([], Inl e)
              | Inr xml \<Rightarrow>
                 (case parseSvgXml env xml of
                    Inl e \<Rightarrow> ([], Inl e)
                  | Inr svgElt \<Rightarrow>
                     (let colors = gatherSvgColors env svgElt;
                          shouldBeIcon =
                            (type = Some Icon
                             \<or> Dlist.member colors ''currentcolor''
                             \<or> (Dlist.length colors \<le> 1
                                 \<and> (Dlist.length colors = 0
                                      \<or> list_all (\<lambda>v. \<not> prefix ''url'' v) (list_of_dlist colors))))
                      in if shouldBeIcon
                         then
                           (let svgElt1 = convertSvgToTextSized env svgElt;
                                svgElt2 =
                                  (if \<not> Dlist.member colors ''currentcolor'' \<and> Dlist.length colors \<le> 1
                                   then clearExplicitColors env svgElt1 else svgElt1);
                                color =
                                  (if Dlist.length colors = 1 then Some (hd (list_of_dlist colors))
                                   else None)
                            in ([], Inr (Some
                                  \<lparr>dataUri = asSvgDataUrl env (serializeToString env svgElt2),
                                   assetType = Icon,
                                   iconColor = (if color = Some ''currentcolor'' then None else color)\<rparr>)))
                         else if type = None
                         then ([], Inr (Some \<lparr>dataUri = url img, assetType = Picture, iconColor = None\<rparr>))
                         else ([NotificationError ''Can only use svg images with one color as icons''],
                               Inr None))))
           else if type = None
           then ([], Inr (Some \<lparr>dataUri = url img, assetType = Picture, iconColor = None\<rparr>))
           else ([NotificationError ''Can only use svg images as icons''], Inr None)))"

section \<open>Uploading\<close>

text \<open>
  The object \<^verbatim>\<open>maybeUploadImage\<close> returns: \<^verbatim>\<open>{ imageResult, opts }\<close>, or the empty
  object \<^verbatim>\<open>{}\<close>, in which both fields are missing.
\<close>

record 'num UploadOutcome =
  imageResult :: "'num ResizableImage option"
  opts :: "ImageAssetOpts option"

definition emptyObject :: "'num UploadOutcome" where
  "emptyObject = \<lparr>imageResult = None, opts = None\<rparr>"

definition nameOfFile :: "FileOrString option \<Rightarrow> string option" where
  "nameOfFile file =
     (case file of
        Some (IsFile n) \<Rightarrow> Some n
      | Some (IsString s) \<Rightarrow> Some s
      | None \<Rightarrow> None)"

definition maybeUploadImage ::
  "('svg, 'num) env \<Rightarrow> 'num ResizableImage \<Rightarrow> ImageAssetType option
     \<Rightarrow> FileOrString option \<Rightarrow> event list \<times> (error + 'num UploadOutcome)" where
  "maybeUploadImage env img type file =
     (case deriveImageAssetTypeAndUri env img type of
        (evs, Inl e) \<Rightarrow> (evs, Inl e)
      | (evs, Inr None) \<Rightarrow> (evs, Inr emptyObject)
      | (evs, Inr (Some res)) \<Rightarrow>
         (let options =
                \<lparr>optsType = assetType res, optsIconColor = iconColor res, optsName = nameOfFile file\<rparr>
          in if assetType res = Picture
             then
               (case imageDataUriToBlob env (dataUri res) of
                  Inl e \<Rightarrow> (evs, Inl e)
                | Inr blob \<Rightarrow>
                   (case uploadImageFile env blob of
                      Inl e \<Rightarrow> (evs @ [UploadImageFileCall blob], Inl e)
                    | Inr uploadedImage \<Rightarrow>
                        (evs @ [UploadImageFileCall blob]
                           @ (case warning uploadedImage of
                                Some w \<Rightarrow> (if w \<noteq> [] then [NotificationWarn w] else [])
                              | None \<Rightarrow> []),
                         Inr \<lparr>imageResult = Some
                                \<lparr>url = uploadedDataUri uploadedImage,
                                 width = (case uploadedWidth uploadedImage of
                                            Some w \<Rightarrow> w | None \<Rightarrow> width img),
                                 height = (case uploadedHeight uploadedImage of
                                             Some h \<Rightarrow> h | None \<Rightarrow> height img),
                                 aspectRatio = (case uploadedAspectRatio uploadedImage of
                                                  Some r \<Rightarrow> Some r
                                                | None \<Rightarrow> actualAspectRatio img)\<rparr>,
                               opts = Some options\<rparr>)))
             else
               (case tryDownscale env
                       \<lparr>url = dataUri res, width = width img, height = height img,
                        aspectRatio = scaledRoundedAspectRatio env img\<rparr> of
                  (evs', downscaled) \<Rightarrow>
                    (evs @ evs', Inr \<lparr>imageResult = Some downscaled, opts = Some options\<rparr>))))"

section \<open>Reading the events of a call\<close>

fun downscaleCalls :: "event list \<Rightarrow> (string \<times> int \<times> int) list" where
  "downscaleCalls [] = []"
| "downscaleCalls (DownscaleCall u w h # evs) = (u, w, h) # downscaleCalls evs"
| "downscaleCalls (ev # evs) = downscaleCalls evs"

fun uploadCalls :: "event list \<Rightarrow> Blob list" where
  "uploadCalls [] = []"
| "uploadCalls (UploadImageFileCall blob # evs) = blob # uploadCalls evs"
| "uploadCalls (ev # evs) = uploadCalls evs"

section \<open>The GIF layout the animated GIF check assumes\<close>

text \<open>
  The layout in the words of the GIF format: a 6-byte header, a 7-byte Logical Screen
  Descriptor whose fifth byte (the byte at index 10) is the packed field, then a Global
  Color Table of 3 * 2 ^ (N + 1) bytes when bit 7 of the packed field is set, N being its
  three low bits, then an 8-byte Graphics Control Extension: the introducer 0x21, the
  label 0xF9, a block size, a packed field, the delay time in two bytes (low byte first),
  a colour index and a terminator.
\<close>

definition globalColorTableLen :: "8 word \<Rightarrow> nat" where
  "globalColorTableLen packed =
     (if bit packed 7 then 3 * 2 ^ (unat (take_bit 3 packed) + 1) else 0)"

definition gceOffset :: "8 word list \<Rightarrow> nat" where
  "gceOffset bytes = 6 + 7 + globalColorTableLen (bytes ! 10)"

definition validGifWithGce :: "8 word list \<Rightarrow> bool" where
  "validGifWithGce bytes =
     (6 + 7 \<le> length bytes \<and> gceOffset bytes + 8 \<le> length bytes
      \<and> bytes ! gceOffset bytes = 0x21 \<and> bytes ! (gceOffset bytes + 1) = 0xF9)"

definition gceDelayTime :: "8 word list \<Rightarrow> nat" where
  "gceDelayTime bytes =
     unat (bytes ! (gceOffset bytes + 4)) + 256 * unat (bytes ! (gceOffset bytes + 5))"

section \<open>SVG data URLs\<close>

text \<open>
  \<open>decodableSvgDataUrl env u svgElt\<close>: the URL parses as a data URL of content type
  \<^verbatim>\<open>image/svg+xml\<close>, its payload is one that \<^verbatim>\<open>atob\<close> decodes (a base64 payload), and
  the decoded text parses to the element \<open>svgElt\<close>. A data URL may also carry its payload
  percent-encoded, with \<^verbatim>\<open>parsed.base64\<close> false; such a URL is an SVG data URL too, but
  not a decodable one in this sense.
\<close>

definition decodableSvgDataUrl :: "('svg, 'num) env \<Rightarrow> string \<Rightarrow> 'svg \<Rightarrow> bool" where
  "decodableSvgDataUrl env u svgElt =
     (case parseDataUrl env u of
        None \<Rightarrow> False
      | Some parsed \<Rightarrow>
          contentType parsed = ''image/svg+xml''
          \<and> (case atob (data parsed) of
                Inl e \<Rightarrow> False
              | Inr xml \<Rightarrow> parseSvgXml env xml = Inr svgElt))"

section \<open>An example environment\<close>

text \<open>
  One concrete choice of the collaborators, small enough to evaluate, at which the
  theorems below are instantiated. Its SVG documents are lists of paint values, written
  in the payload separated by spaces; a document also records whether it has been
  converted to text size. It parses three forms of SVG data URL: with a base64 payload,
  and with a percent-encoded payload with or without a \<^verbatim>\<open>charset\<close> parameter; as the
  package does, it keeps the parameter in \<^verbatim>\<open>mediaType\<close> and not in \<^verbatim>\<open>contentType\<close>.
  Its \<^verbatim>\<open>getParsedDataUrlData\<close> decodes by \<^verbatim>\<open>parsed.base64\<close>. Its numbers are integers:
  on integers below 2 ^ 53 the product of doubles is exact as long as it stays below
  2 ^ 53, and \<^verbatim>\<open>Math.round\<close> is the identity.
\<close>

record exampleSvg =
  textSized :: bool
  paints :: "string list"

fun wordsFrom :: "string \<Rightarrow> string \<Rightarrow> string list" where
  "wordsFrom w [] = (if w = [] then [] else [w])"
| "wordsFrom w (c # cs) =
     (if c = CHR '' '' then (if w = [] then wordsFrom [] cs else w # wordsFrom [] cs)
      else wordsFrom (w @ [c]) cs)"

definition hexDigit :: "char \<Rightarrow> nat option" where
  "hexDigit c =
     (let n = (of_char c :: nat) in
      if 48 \<le> n \<and> n \<le> 57 then Some (n - 48)
      else if 65 \<le> n \<and> n \<le> 70 then Some (n - 55)
      else if 97 \<le> n \<and> n \<le> 102 then Some (n - 87)
      else None)"

fun percentDecode :: "string \<Rightarrow> error + string" where
  "percentDecode [] = Inr []"
| "percentDecode [c] = (if c = CHR ''%'' then Inl (Rejected ''URIError'') else Inr [c])"
| "percentDecode [c, h] =
     (if c = CHR ''%'' then Inl (Rejected ''URIError'')
      else case percentDecode [h] of Inl e \<Rightarrow> Inl e | Inr rest \<Rightarrow> Inr (c # rest))"
| "percentDecode (c # h # l # cs) =
     (if c = CHR ''%''
      then (case (hexDigit h, hexDigit l) of
              (Some a, Some b) \<Rightarrow>
                (case percentDecode cs of
                   Inl e \<Rightarrow> Inl e
                 | Inr rest \<Rightarrow> Inr (char_of (16 * a + b) # rest))
            | _ \<Rightarrow> Inl (Rejected ''URIError''))
      else case percentDecode (h # l # cs) of
             Inl e \<Rightarrow> Inl e
           | Inr rest \<Rightarrow> Inr (c # rest))"

fun unwords :: "string list \<Rightarrow> string" where
  "unwords [] = []"
| "unwords [w] = w"
| "unwords (w # ws) = w @ '' '' @ unwords ws"

definition exampleParseDataUrl :: "string \<Rightarrow> ParsedDataUrl option" where
  "exampleParseDataUrl u =
     (if prefix ''data:image/svg+xml;base64,'' u
      then Some \<lparr>mediaType = ''image/svg+xml'', contentType = ''image/svg+xml'',
                 base64 = True, data = drop 26 u\<rparr>
      else if prefix ''data:image/svg+xml;charset=utf-8,'' u
      then Some \<lparr>mediaType = ''image/svg+xml;charset=utf-8'', contentType = ''image/svg+xml'',
                 base64 = False, data = drop 33 u\<rparr>
      else if prefix ''data:image/svg+xml,'' u
      then Some \<lparr>mediaType = ''image/svg+xml'', contentType = ''image/svg+xml'',
                 base64 = False, data = drop 19 u\<rparr>
      else if prefix ''data:image/png;base64,'' u
      then Some \<lparr>mediaType = ''image/png'', contentType = ''image/png'',
                 base64 = True, data = drop 22 u\<rparr>
      else None)"

definition exampleEnv :: "(exampleSvg, int) env" where
  "exampleEnv =
     \<lparr>parseDataUrl = exampleParseDataUrl,
      getParsedDataUrlData =
        (\<lambda>parsed. if base64 parsed then atob (data parsed) else percentDecode (data parsed)),
      parseSvgXml = (\<lambda>xml. Inr \<lparr>textSized = False, paints = wordsFrom [] xml\<rparr>),
      gatherSvgColors = (\<lambda>svgElt. Dlist (paints svgElt)),
      convertSvgToTextSized = (\<lambda>svgElt. svgElt\<lparr>textSized := True\<rparr>),
      clearExplicitColors = (\<lambda>svgElt. svgElt\<lparr>paints := []\<rparr>),
      serializeToString =
        (\<lambda>svgElt. (if textSized svgElt then ''1em:'' else ''px:'') @ unwords (paints svgElt)),
      asSvgDataUrl = (\<lambda>xml. ''data:image/svg+xml,'' @ xml),
      imageDataUriToBlob = (\<lambda>u. Inr (dropThroughComma u)),
      processSvg = (\<lambda>xml. Inr (StatusSuccess xml None)),
      uploadImageFile =
        (\<lambda>blob. Inr \<lparr>uploadedDataUri = ''https://img.example/stored'', uploadedWidth = None,
                       uploadedHeight = None, uploadedAspectRatio = None, warning = None\<rparr>),
      downscale = (\<lambda>u w h. Inl (Rejected ''no canvas'')),
      loadImage = (\<lambda>u. Inl None),
      ASPECT_RATIO_SCALE_FACTOR = 1000,
      numberIsTruthy = (\<lambda>r. r \<noteq> 0),
      numberTimes = (\<lambda>a b. a * b),
      mathRound = (\<lambda>r. r)\<rparr>"

text \<open>
  Two variants of it: one whose \<^verbatim>\<open>processSvg\<close> answers with the status failure, and one
  whose \<^verbatim>\<open>downscale\<close> resolves to a data URL that the image decoder cannot load.
\<close>

definition failingProcessSvg :: "(exampleSvg, int) env" where
  "failingProcessSvg = exampleEnv\<lparr>processSvg := (\<lambda>xml. Inr StatusFailure)\<rparr>"

definition resultUnreadable :: "(exampleSvg, int) env" where
  "resultUnreadable = exampleEnv\<lparr>downscale := (\<lambda>u w h. Inr ''data:,'')\<rparr>"

section \<open>Evaluating at concrete inputs\<close>

text \<open>The definitions that the simplifier unfolds to run the example environment.\<close>

lemma char_eq_char_of_iff: "c = char_of n \<longleftrightarrow> take_bit 8 n = of_char c"
  using char_of_eq_iff [of n c] by auto

lemmas example_eval =
  exampleEnv_def exampleParseDataUrl_def decodableSvgDataUrl_def atob_def stripPadding_def
  isAsciiWhitespace_def base64Index_def hexDigit_def Let_def Dlist.length_def Dlist.member_def
  char_of_eq_iff char_eq_char_of_iff

section \<open>The animated GIF check: results\<close>

text \<open>
  The source tests the packed byte with the masks 0x80 and 0x7; these are bit 7 and the
  three low bits.
\<close>

lemma high_bit_test: "(w AND 0x80 \<noteq> 0) = bit w 7" for w :: "8 word"
proof -
  have "(w AND 2 ^ 7 = 0) = (\<not> bit w 7)"
    by (rule and_exp_eq_0_iff_not_bit)
  then show ?thesis by simp
qed

lemma low_bits: "w AND 0x7 = take_bit 3 w" for w :: "8 word"
  by (simp add: take_bit_eq_mask mask_eq_exp_minus_1)

lemma colorTable_len: "(if w AND 0x80 \<noteq> 0 then 3 * 2 ^ (unat (w AND 0x7) + 1) else 0) = globalColorTableLen w"
  by (simp only: high_bit_test low_bits globalColorTableLen_def)

text \<open>
  C1. Let a data URL decode to bytes laid out as a GIF with a Graphics Control
  Extension right after the Logical Screen Descriptor and the optional Global Color
  Table. Then \<^verbatim>\<open>isAnimatedGif\<close> returns, without failing, and it returns true exactly when
  the delay time of that extension is greater than 0: false for a still image (delay 0),
  true for every delay above 0. The source reads the two bytes of the delay high byte
  first, the format stores the low byte first; whether the value is 0 does not depend on
  the order.
\<close>

theorem isAnimatedGif_iff_delay:
  assumes dec: "atob (dropThroughComma dataUrl) = Inr binaryString"
    and valid: "validGifWithGce (map charCodeAt binaryString)"
  shows "isAnimatedGif dataUrl = Inr (0 < gceDelayTime (map charCodeAt binaryString))"
proof -
  define bytes where "bytes = map charCodeAt binaryString"
  define g where "g = globalColorTableLen (bytes ! 10)"
  from valid have "validGifWithGce bytes"
    by (simp only: bytes_def)
  then have len: "13 \<le> length bytes" "g + 21 \<le> length bytes"
    and intro: "bytes ! (13 + g) = 0x21" and label: "bytes ! (14 + g) = 0xF9"
    by (simp_all add: validGifWithGce_def gceOffset_def g_def add.commute)
  have dv: "newDataView bytes (HEADER_LEN + LOGICAL_SCREEN_DESC_LEN - 3) = Inr (drop 10 bytes)"
    using len by (simp add: newDataView_def HEADER_LEN_def LOGICAL_SCREEN_DESC_LEN_def)
  have r0: "getUint8 (drop 10 bytes) 0 = Inr (bytes ! 10)"
    using len by (simp add: getUint8_def)
  have r1: "getUint8 (drop 10 bytes) (3 + g) = Inr 0x21"
    using len intro by (simp add: getUint8_def add.commute)
  have r2: "getUint8 (drop 10 bytes) (3 + g + 1) = Inr 0xF9"
    using len label by (simp add: getUint8_def add.commute)
  have r3: "getUint16 (drop 10 bytes) (3 + g + 4)
              = Inr (256 * unat (bytes ! (17 + g)) + unat (bytes ! (18 + g)))"
    using len by (simp add: getUint16_def add.commute)
  have "isAnimatedGif dataUrl
          = Inr (0 < 256 * unat (bytes ! (17 + g)) + unat (bytes ! (18 + g)))"
    unfolding isAnimatedGif_def Let_def dec sum.case bytes_def [symmetric] dv r0
      colorTable_len g_def [symmetric] r1 r2 r3
    by simp
  moreover have "gceDelayTime bytes = unat (bytes ! (17 + g)) + 256 * unat (bytes ! (18 + g))"
    by (simp add: gceDelayTime_def gceOffset_def g_def add.commute)
  ultimately show ?thesis
    unfolding bytes_def [symmetric] by auto
qed

theorem isAnimatedGif_iff_delay_witness:
  "atob (dropThroughComma ''data:image/gif;base64,R0lGODlhAQABAIAAAAAAAP///yH5BAAAAQAA'')
     = Inr (map char_of [71, 73, 70, 56, 57, 97, 1, 0, 1, 0, 128, 0, 0, 0, 0, 0, 255, 255, 255,
                         33, 249, 4, 0, 0, 1, 0, 0 :: nat])
   \<and> validGifWithGce (map charCodeAt (map char_of
         [71, 73, 70, 56, 57, 97, 1, 0, 1, 0, 128, 0, 0, 0, 0, 0, 255, 255, 255,
          33, 249, 4, 0, 0, 1, 0, 0 :: nat]))
   \<and> isAnimatedGif ''data:image/gif;base64,R0lGODlhAQABAIAAAAAAAP///yH5BAAAAQAA'' = Inr True
   \<and> atob (dropThroughComma ''data:image/gif;base64,R0lGODlhAQABAAAAACH5BAAAAAAA'')
     = Inr (map char_of [71, 73, 70, 56, 57, 97, 1, 0, 1, 0, 0, 0, 0,
                         33, 249, 4, 0, 0, 0, 0, 0 :: nat])
   \<and> validGifWithGce (map charCodeAt (map char_of
         [71, 73, 70, 56, 57, 97, 1, 0, 1, 0, 0, 0, 0, 33, 249, 4, 0, 0, 0, 0, 0 :: nat]))
   \<and> isAnimatedGif ''data:image/gif;base64,R0lGODlhAQABAAAAACH5BAAAAAAA'' = Inr False"
proof -
  let ?u = "''data:image/gif;base64,R0lGODlhAQABAIAAAAAAAP///yH5BAAAAQAA''"
  let ?b = "map char_of [71, 73, 70, 56, 57, 97, 1, 0, 1, 0, 128, 0, 0, 0, 0, 0, 255, 255, 255,
                         33, 249, 4, 0, 0, 1, 0, 0 :: nat]"
  let ?v = "''data:image/gif;base64,R0lGODlhAQABAAAAACH5BAAAAAAA''"
  let ?c = "map char_of [71, 73, 70, 56, 57, 97, 1, 0, 1, 0, 0, 0, 0,
                         33, 249, 4, 0, 0, 0, 0, 0 :: nat]"
  have a: "atob (dropThroughComma ?u) = Inr ?b"
    by (simp add: dropThroughComma_def atob_def stripPadding_def isAsciiWhitespace_def
        base64Index_def Let_def)
  have v: "validGifWithGce (map charCodeAt ?b)"
    by (simp add: validGifWithGce_def gceOffset_def globalColorTableLen_def charCodeAt_def)
  have d: "gceDelayTime (map charCodeAt ?b) = 256"
    by (simp add: gceDelayTime_def gceOffset_def globalColorTableLen_def charCodeAt_def)
  have a': "atob (dropThroughComma ?v) = Inr ?c"
    by (simp add: dropThroughComma_def atob_def stripPadding_def isAsciiWhitespace_def
        base64Index_def Let_def)
  have v': "validGifWithGce (map charCodeAt ?c)"
    by (simp add: validGifWithGce_def gceOffset_def globalColorTableLen_def charCodeAt_def)
  have d': "gceDelayTime (map charCodeAt ?c) = 0"
    by (simp add: gceDelayTime_def gceOffset_def globalColorTableLen_def charCodeAt_def)
  from isAnimatedGif_iff_delay [OF a v] isAnimatedGif_iff_delay [OF a' v'] a v a' v'
  show ?thesis
    unfolding d d' by simp
qed

text \<open>
  C2. The test \<^verbatim>\<open>extensionIntroducer & 0x21 && graphicsConrolLabel & 0xf9\<close> passes for
  bytes other than 0x21 and 0xF9. A still GIF87a image has no extension at all: after its
  Logical Screen Descriptor comes the image descriptor, the separator 0x2C and the left
  position of the frame, here 1. Neither byte is the one of a Graphics Control Extension,
  yet both pass the test, the bytes of the descriptor that lie where the delay would be
  (the high byte of the top position and the low byte of the width) are read, and
  \<^verbatim>\<open>isAnimatedGif\<close> returns true.
\<close>

theorem isAnimatedGif_false_positive:
  "\<exists>dataUrl binaryString e l.
      atob (dropThroughComma dataUrl) = Inr binaryString
      \<and> map charCodeAt binaryString ! 10 AND 0x80 = 0
      \<and> map charCodeAt binaryString ! 13 = e
      \<and> map charCodeAt binaryString ! 14 = l
      \<and> e \<noteq> 0x21 \<and> l \<noteq> 0xF9 \<and> (e, l) \<noteq> (0x21, 0xF9)
      \<and> e AND 0x21 \<noteq> 0 \<and> l AND 0xf9 \<noteq> 0
      \<and> isAnimatedGif dataUrl = Inr True"
proof -
  let ?u = "''data:image/gif;base64,R0lGODdhAgABAAAAACwBAAAAAQABAAACAkwBADs=''"
  let ?b = "map char_of [71, 73, 70, 56, 55, 97, 2, 0, 1, 0, 0, 0, 0, 44, 1, 0, 0, 0, 1, 0,
                         1, 0, 0, 2, 2, 76, 1, 0, 59 :: nat]"
  have a: "atob (dropThroughComma ?u) = Inr ?b"
    by (simp add: dropThroughComma_def atob_def stripPadding_def isAsciiWhitespace_def
        base64Index_def Let_def)
  have r: "isAnimatedGif ?u = Inr True"
    unfolding isAnimatedGif_def Let_def a sum.case
    by (simp add: charCodeAt_def newDataView_def getUint8_def getUint16_def HEADER_LEN_def
        LOGICAL_SCREEN_DESC_LEN_def)
  have b: "map charCodeAt ?b ! 10 AND 0x80 = 0" "map charCodeAt ?b ! 13 = 0x2C"
    "map charCodeAt ?b ! 14 = 0x01"
    by (simp_all add: charCodeAt_def)
  have c: "(0x2C :: 8 word) \<noteq> 0x21" "(0x01 :: 8 word) \<noteq> 0xF9"
    "((0x2C, 0x01) :: 8 word \<times> 8 word) \<noteq> (0x21, 0xF9)"
    "(0x2C :: 8 word) AND 0x21 \<noteq> 0" "(0x01 :: 8 word) AND 0xf9 \<noteq> 0"
    by simp_all
  from a r b c show ?thesis
    by blast
qed

section \<open>Classification: results\<close>

lemma classify_svg_unfold:
  assumes "decodableSvgDataUrl env (url img) svgElt"
  obtains parsed xml where "parseDataUrl env (url img) = Some parsed"
    and "contentType parsed = SVG_CONTENT_TYPE"
    and "atob (data parsed) = Inr xml"
    and "parseSvgXml env xml = Inr svgElt"
  using assms
  by (auto simp: decodableSvgDataUrl_def SVG_CONTENT_TYPE_def SVG_MEDIA_TYPE_def
      split: option.splits sum.splits)

text \<open>
  The payload of an SVG data URL is decoded at line 503 by \<^verbatim>\<open>atob(parsed.data)\<close>, whatever
  \<^verbatim>\<open>parsed.base64\<close> says; \<^verbatim>\<open>sanitizeImageDataUrl\<close> and
  \<^verbatim>\<open>maybeGetAspectRatioFromImageDataUrl\<close> decode through \<^verbatim>\<open>getParsedDataUrlData\<close> instead.
  A percent sign is neither in the base64 alphabet nor whitespace nor padding, so
  \<^verbatim>\<open>atob\<close> rejects every payload that holds one, and for every environment the
  classification of an SVG data URL with such a payload throws, unless a Picture was
  requested.
\<close>

lemma in_set_butlast_if:
  assumes "c \<in> set xs" and "last xs \<noteq> c"
  shows "c \<in> set (butlast xs)"
proof -
  from assms(1) have "xs \<noteq> []"
    by auto
  then have "xs = butlast xs @ [last xs]"
    by simp
  then have "set xs = set (butlast xs) \<union> {last xs}"
    by (metis Un_insert_right list.simps(15) set_append sup_bot.right_neutral empty_set)
  with assms show ?thesis
    by auto
qed

lemma in_set_stripPadding:
  assumes "c \<in> set xs" and "c \<noteq> CHR ''=''"
  shows "c \<in> set (stripPadding xs)"
proof (cases "length xs mod 4 = 0 \<and> xs \<noteq> [] \<and> last xs = CHR ''=''")
  case False
  have "stripPadding xs = xs"
    unfolding stripPadding_def by (rule if_not_P) (rule False)
  with assms show ?thesis
    by simp
next
  case True
  have once: "c \<in> set (butlast xs)"
  proof (rule in_set_butlast_if)
    show "c \<in> set xs"
      by (rule assms(1))
    show "last xs \<noteq> c"
      using True assms(2) by auto
  qed
  have outer: "stripPadding xs =
      (if butlast xs \<noteq> [] \<and> last (butlast xs) = CHR ''=''
       then butlast (butlast xs) else butlast xs)"
    unfolding stripPadding_def by (rule if_P) (rule True)
  show ?thesis
  proof (cases "butlast xs \<noteq> [] \<and> last (butlast xs) = CHR ''=''")
    case False
    have "stripPadding xs = butlast xs"
      unfolding outer by (rule if_not_P) (rule False)
    with once show ?thesis
      by simp
  next
    case twice: True
    have "c \<in> set (butlast (butlast xs))"
    proof (rule in_set_butlast_if)
      show "c \<in> set (butlast xs)"
        by (rule once)
      show "last (butlast xs) \<noteq> c"
        using twice assms(2) by auto
    qed
    moreover have "stripPadding xs = butlast (butlast xs)"
      unfolding outer by (rule if_P) (rule twice)
    ultimately show ?thesis
      by simp
  qed
qed

lemma those_None_if:
  assumes "x \<in> set xs" and "f x = None"
  shows "those (map f xs) = None"
  using assms by (induction xs) (auto split: option.splits)

lemma atob_percent:
  assumes "CHR ''%'' \<in> set s"
  shows "atob s = Inl InvalidCharacterError"
proof -
  let ?data = "stripPadding (filter (\<lambda>c. \<not> isAsciiWhitespace c) s)"
  have "\<not> isAsciiWhitespace CHR ''%''"
    by (simp add: isAsciiWhitespace_def)
  with assms have "CHR ''%'' \<in> set (filter (\<lambda>c. \<not> isAsciiWhitespace c) s)"
    by simp
  then have "CHR ''%'' \<in> set ?data"
    by (rule in_set_stripPadding) simp
  moreover have "base64Index CHR ''%'' = None"
    by (simp add: base64Index_def)
  ultimately have "those (map base64Index ?data) = None"
    by (rule those_None_if)
  then show ?thesis
    by (simp add: atob_def Let_def)
qed

lemma classify_percent_encoded:
  assumes "parseDataUrl env (url img) = Some parsed"
    and "contentType parsed = ''image/svg+xml''"
    and "CHR ''%'' \<in> set (data parsed)"
    and "type \<noteq> Some Picture"
  shows "deriveImageAssetTypeAndUri env img type = ([], Inl InvalidCharacterError)"
  using assms
  by (simp add: deriveImageAssetTypeAndUri_def SVG_CONTENT_TYPE_def SVG_MEDIA_TYPE_def
      atob_percent)

text \<open>
  C3, as the claim states it, fails: for an SVG with the two colours #ff0000 and #00ff00
  in a base64 payload and the requested type Icon, the example environment gets an Icon classification and no
  notification, not \<^verbatim>\<open>undefined\<close> with the message "Can only use svg images with one
  color as icons".
\<close>

theorem multicolor_svg_requested_icon_counterexample:
  "decodableSvgDataUrl exampleEnv ''data:image/svg+xml;base64,I2ZmMDAwMCAjMDBmZjAw''
     \<lparr>textSized = False, paints = [''#ff0000'', ''#00ff00'']\<rparr>
   \<and> list_of_dlist (gatherSvgColors exampleEnv
         \<lparr>textSized = False, paints = [''#ff0000'', ''#00ff00'']\<rparr>) = [''#ff0000'', ''#00ff00'']
   \<and> deriveImageAssetTypeAndUri exampleEnv
         \<lparr>url = ''data:image/svg+xml;base64,I2ZmMDAwMCAjMDBmZjAw'', width = 24, height = 24,
          aspectRatio = None\<rparr> (Some Icon)
       = ([], Inr (Some \<lparr>dataUri = ''data:image/svg+xml,1em:#ff0000 #00ff00'',
                         assetType = Icon, iconColor = None\<rparr>))
   \<and> deriveImageAssetTypeAndUri exampleEnv
         \<lparr>url = ''data:image/svg+xml;base64,I2ZmMDAwMCAjMDBmZjAw'', width = 24, height = 24,
          aspectRatio = None\<rparr> (Some Icon)
       \<noteq> ([NotificationError ''Can only use svg images with one color as icons''], Inr None)"
  by (simp add: deriveImageAssetTypeAndUri_def SVG_CONTENT_TYPE_def SVG_MEDIA_TYPE_def example_eval)

text \<open>
  C3, as amended. For every image whose URL is an SVG data URL with a payload that
  \<^verbatim>\<open>atob\<close> decodes (a base64 payload) to a text that parses as SVG, with two or more
  distinct colours, none of them \<^verbatim>\<open>currentcolor\<close>, and the requested type Icon,
  \<^verbatim>\<open>deriveImageAssetTypeAndUri\<close> shows no notification and returns the type Icon with no
  icon colour; its data URI is the SVG converted to text size and serialized again, its
  colours not cleared. The request for an icon is the first disjunct of
  \<^verbatim>\<open>shouldBeIcon\<close>, so the branch that shows the message is never taken. Nothing is said
  here of a payload that \<^verbatim>\<open>atob\<close> does not decode.
\<close>

theorem multicolor_svg_requested_icon:
  assumes svg: "decodableSvgDataUrl env (url img) svgElt"
    and many: "2 \<le> Dlist.length (gatherSvgColors env svgElt)"
    and nocur: "\<not> Dlist.member (gatherSvgColors env svgElt) ''currentcolor''"
  shows "deriveImageAssetTypeAndUri env img (Some Icon) =
           ([], Inr (Some \<lparr>dataUri = asSvgDataUrl env
                                 (serializeToString env (convertSvgToTextSized env svgElt)),
                            assetType = Icon, iconColor = None\<rparr>))"
proof -
  from svg obtain parsed xml where p: "parseDataUrl env (url img) = Some parsed"
    "contentType parsed = SVG_CONTENT_TYPE" "atob (data parsed) = Inr xml"
    "parseSvgXml env xml = Inr svgElt"
    by (rule classify_svg_unfold)
  from many have "\<not> Dlist.length (gatherSvgColors env svgElt) \<le> 1"
    and "Dlist.length (gatherSvgColors env svgElt) \<noteq> 1"
    by simp_all
  then show ?thesis
    by (simp add: deriveImageAssetTypeAndUri_def p Let_def)
qed

theorem multicolor_svg_requested_icon_witness:
  "decodableSvgDataUrl exampleEnv ''data:image/svg+xml;base64,I2ZmMDAwMCAjMDBmZjAw''
     \<lparr>textSized = False, paints = [''#ff0000'', ''#00ff00'']\<rparr>
   \<and> 2 \<le> Dlist.length (gatherSvgColors exampleEnv
         \<lparr>textSized = False, paints = [''#ff0000'', ''#00ff00'']\<rparr>)
   \<and> \<not> Dlist.member (gatherSvgColors exampleEnv
         \<lparr>textSized = False, paints = [''#ff0000'', ''#00ff00'']\<rparr>) ''currentcolor''
   \<and> deriveImageAssetTypeAndUri exampleEnv
         \<lparr>url = ''data:image/svg+xml;base64,I2ZmMDAwMCAjMDBmZjAw'', width = 24, height = 24,
          aspectRatio = None\<rparr> (Some Icon)
       = ([], Inr (Some \<lparr>dataUri = ''data:image/svg+xml,1em:#ff0000 #00ff00'',
                         assetType = Icon, iconColor = None\<rparr>))"
proof -
  let ?img = "\<lparr>url = ''data:image/svg+xml;base64,I2ZmMDAwMCAjMDBmZjAw'', width = 24,
               height = 24, aspectRatio = None\<rparr>"
  let ?elt = "\<lparr>textSized = False, paints = [''#ff0000'', ''#00ff00'']\<rparr>"
  have s: "decodableSvgDataUrl exampleEnv (url ?img) ?elt"
    by (simp add: example_eval)
  have m: "2 \<le> Dlist.length (gatherSvgColors exampleEnv ?elt)"
    by (simp add: example_eval)
  have n: "\<not> Dlist.member (gatherSvgColors exampleEnv ?elt) ''currentcolor''"
    by (simp add: example_eval)
  have "deriveImageAssetTypeAndUri exampleEnv ?img (Some Icon) =
          ([], Inr (Some \<lparr>dataUri = ''data:image/svg+xml,1em:#ff0000 #00ff00'',
                           assetType = Icon, iconColor = None\<rparr>))"
    using multicolor_svg_requested_icon [OF s m n] by (simp add: exampleEnv_def)
  with s m n show ?thesis
    by simp
qed

text \<open>
  C4. The claim does not hold of the code for every SVG data URL. The URL below carries
  its payload percent-encoded and has a \<^verbatim>\<open>charset\<close> parameter, so
  \<^verbatim>\<open>sanitizeImageDataUrl\<close> returns it unchanged; \<^verbatim>\<open>getParsedDataUrlData\<close> decodes its
  payload to an SVG with the one colour #ff0000; and \<^verbatim>\<open>deriveImageAssetTypeAndUri\<close>, with
  no requested type, throws an \<^verbatim>\<open>InvalidCharacterError\<close> instead of returning the type
  Icon with that colour.
\<close>

theorem single_color_percent_encoded_svg_throws:
  "sanitizeImageDataUrl exampleEnv ''data:image/svg+xml;charset=utf-8,%23ff0000''
     = ([], Inr (Some ''data:image/svg+xml;charset=utf-8,%23ff0000''))
   \<and> parseDataUrl exampleEnv ''data:image/svg+xml;charset=utf-8,%23ff0000''
     = Some \<lparr>mediaType = ''image/svg+xml;charset=utf-8'', contentType = ''image/svg+xml'',
             base64 = False, data = ''%23ff0000''\<rparr>
   \<and> getParsedDataUrlData exampleEnv
       \<lparr>mediaType = ''image/svg+xml;charset=utf-8'', contentType = ''image/svg+xml'',
        base64 = False, data = ''%23ff0000''\<rparr> = Inr ''#ff0000''
   \<and> parseSvgXml exampleEnv ''#ff0000'' = Inr \<lparr>textSized = False, paints = [''#ff0000'']\<rparr>
   \<and> list_of_dlist (gatherSvgColors exampleEnv \<lparr>textSized = False, paints = [''#ff0000'']\<rparr>)
       = [''#ff0000'']
   \<and> deriveImageAssetTypeAndUri exampleEnv
         \<lparr>url = ''data:image/svg+xml;charset=utf-8,%23ff0000'', width = 24,
          height = 24, aspectRatio = None\<rparr> None
       = ([], Inl InvalidCharacterError)"
proof -
  let ?u = "''data:image/svg+xml;charset=utf-8,%23ff0000''"
  let ?p = "\<lparr>mediaType = ''image/svg+xml;charset=utf-8'', contentType = ''image/svg+xml'',
             base64 = False, data = ''%23ff0000''\<rparr>"
  have p: "parseDataUrl exampleEnv ?u = Some ?p"
    by (simp add: exampleEnv_def exampleParseDataUrl_def)
  have s: "sanitizeImageDataUrl exampleEnv ?u = ([], Inr (Some ?u))"
    unfolding sanitizeImageDataUrl_def p by (simp add: SVG_MEDIA_TYPE_def)
  have g: "getParsedDataUrlData exampleEnv ?p = Inr ''#ff0000''"
    by (simp add: example_eval)
  have x: "parseSvgXml exampleEnv ''#ff0000'' = Inr \<lparr>textSized = False, paints = [''#ff0000'']\<rparr>"
    by (simp add: example_eval)
  have c: "list_of_dlist (gatherSvgColors exampleEnv \<lparr>textSized = False, paints = [''#ff0000'']\<rparr>)
       = [''#ff0000'']"
    by (simp add: example_eval)
  have d: "deriveImageAssetTypeAndUri exampleEnv
         \<lparr>url = ?u, width = 24, height = 24, aspectRatio = None\<rparr> None
       = ([], Inl InvalidCharacterError)"
    by (rule classify_percent_encoded [where parsed = ?p]) (simp_all add: p)
  from s p g x c d show ?thesis
    by simp
qed

text \<open>
  For a payload that \<^verbatim>\<open>atob\<close> decodes the code does what C4 says: when the gathered
  colour set is exactly one colour \<open>c\<close> that is neither \<^verbatim>\<open>currentcolor\<close> nor starts with
  \<^verbatim>\<open>url\<close>, the result is the type Icon with icon colour \<open>c\<close>, and its data URI encodes
  the element after \<^verbatim>\<open>convertSvgToTextSized\<close> and \<^verbatim>\<open>clearExplicitColors\<close>; when the set is
  exactly \<^verbatim>\<open>currentcolor\<close>, the result is the type Icon with no icon colour, and the
  colours are not cleared.
\<close>

lemma single_color_decodable_svg:
  assumes svg: "decodableSvgDataUrl env (url img) svgElt"
  shows "(list_of_dlist (gatherSvgColors env svgElt) = [c] \<and> c \<noteq> ''currentcolor''
            \<and> \<not> prefix ''url'' c \<longrightarrow>
          deriveImageAssetTypeAndUri env img None =
            ([], Inr (Some \<lparr>dataUri = asSvgDataUrl env (serializeToString env
                                 (clearExplicitColors env (convertSvgToTextSized env svgElt))),
                             assetType = Icon, iconColor = Some c\<rparr>)))
       \<and> (list_of_dlist (gatherSvgColors env svgElt) = [''currentcolor''] \<longrightarrow>
          deriveImageAssetTypeAndUri env img None =
            ([], Inr (Some \<lparr>dataUri = asSvgDataUrl env (serializeToString env
                                 (convertSvgToTextSized env svgElt)),
                             assetType = Icon, iconColor = None\<rparr>)))"
proof -
  from svg obtain parsed xml where p: "parseDataUrl env (url img) = Some parsed"
    "contentType parsed = SVG_CONTENT_TYPE" "atob (data parsed) = Inr xml"
    "parseSvgXml env xml = Inr svgElt"
    by (rule classify_svg_unfold)
  show ?thesis
    by (simp add: deriveImageAssetTypeAndUri_def p Let_def Dlist.member_def Dlist.length_def
        )
qed

lemma single_color_decodable_svg_example:
  "decodableSvgDataUrl exampleEnv ''data:image/svg+xml;base64,I2ZmMDAwMA==''
     \<lparr>textSized = False, paints = [''#ff0000'']\<rparr>
   \<and> list_of_dlist (gatherSvgColors exampleEnv \<lparr>textSized = False, paints = [''#ff0000'']\<rparr>)
       = [''#ff0000'']
   \<and> deriveImageAssetTypeAndUri exampleEnv
         \<lparr>url = ''data:image/svg+xml;base64,I2ZmMDAwMA=='', width = 24, height = 24,
          aspectRatio = None\<rparr> None
       = ([], Inr (Some \<lparr>dataUri = ''data:image/svg+xml,1em:'', assetType = Icon,
                         iconColor = Some ''#ff0000''\<rparr>))
   \<and> decodableSvgDataUrl exampleEnv ''data:image/svg+xml;base64,Y3VycmVudGNvbG9y''
       \<lparr>textSized = False, paints = [''currentcolor'']\<rparr>
   \<and> list_of_dlist (gatherSvgColors exampleEnv \<lparr>textSized = False, paints = [''currentcolor'']\<rparr>)
       = [''currentcolor'']
   \<and> deriveImageAssetTypeAndUri exampleEnv
         \<lparr>url = ''data:image/svg+xml;base64,Y3VycmVudGNvbG9y'', width = 24, height = 24,
          aspectRatio = None\<rparr> None
       = ([], Inr (Some \<lparr>dataUri = ''data:image/svg+xml,1em:currentcolor'', assetType = Icon,
                         iconColor = None\<rparr>))"
proof -
  let ?img = "\<lparr>url = ''data:image/svg+xml;base64,I2ZmMDAwMA=='', width = 24,
               height = 24, aspectRatio = None\<rparr>"
  let ?elt = "\<lparr>textSized = False, paints = [''#ff0000'']\<rparr>"
  let ?img' = "\<lparr>url = ''data:image/svg+xml;base64,Y3VycmVudGNvbG9y'', width = 24,
               height = 24, aspectRatio = None\<rparr>"
  let ?elt' = "\<lparr>textSized = False, paints = [''currentcolor'']\<rparr>"
  have s: "decodableSvgDataUrl exampleEnv (url ?img) ?elt"
    by (simp add: example_eval)
  have c: "list_of_dlist (gatherSvgColors exampleEnv ?elt) = [''#ff0000'']"
    by (simp add: example_eval)
  have s': "decodableSvgDataUrl exampleEnv (url ?img') ?elt'"
    by (simp add: example_eval)
  have c': "list_of_dlist (gatherSvgColors exampleEnv ?elt') = [''currentcolor'']"
    by (simp add: example_eval)
  have "deriveImageAssetTypeAndUri exampleEnv ?img None =
          ([], Inr (Some \<lparr>dataUri = ''data:image/svg+xml,1em:'', assetType = Icon,
                           iconColor = Some ''#ff0000''\<rparr>))"
    using single_color_decodable_svg [OF s, of "''#ff0000''"] c by (simp add: exampleEnv_def)
  moreover have "deriveImageAssetTypeAndUri exampleEnv ?img' None =
          ([], Inr (Some \<lparr>dataUri = ''data:image/svg+xml,1em:currentcolor'', assetType = Icon,
                           iconColor = None\<rparr>))"
    using single_color_decodable_svg [OF s', of "''x''"] c' by (simp add: exampleEnv_def)
  ultimately show ?thesis
    using s c s' c' by simp
qed

text \<open>
  C5. The claim does not hold of the code for every SVG data URL, by the same defect. The
  URL below carries its payload percent-encoded and has a \<^verbatim>\<open>charset\<close> parameter, so
  \<^verbatim>\<open>sanitizeImageDataUrl\<close> returns it unchanged; \<^verbatim>\<open>getParsedDataUrlData\<close> decodes its
  payload to an SVG with the two colours #ff0000 and #00ff00; and
  \<^verbatim>\<open>deriveImageAssetTypeAndUri\<close>, with no requested type, throws an
  \<^verbatim>\<open>InvalidCharacterError\<close> instead of returning the type Picture with the URL of the
  image.
\<close>

theorem multicolor_percent_encoded_svg_throws:
  "sanitizeImageDataUrl exampleEnv ''data:image/svg+xml;charset=utf-8,%23ff0000%20%2300ff00''
     = ([], Inr (Some ''data:image/svg+xml;charset=utf-8,%23ff0000%20%2300ff00''))
   \<and> parseDataUrl exampleEnv ''data:image/svg+xml;charset=utf-8,%23ff0000%20%2300ff00''
     = Some \<lparr>mediaType = ''image/svg+xml;charset=utf-8'', contentType = ''image/svg+xml'',
             base64 = False, data = ''%23ff0000%20%2300ff00''\<rparr>
   \<and> getParsedDataUrlData exampleEnv
       \<lparr>mediaType = ''image/svg+xml;charset=utf-8'', contentType = ''image/svg+xml'',
        base64 = False, data = ''%23ff0000%20%2300ff00''\<rparr> = Inr ''#ff0000 #00ff00''
   \<and> parseSvgXml exampleEnv ''#ff0000 #00ff00''
     = Inr \<lparr>textSized = False, paints = [''#ff0000'', ''#00ff00'']\<rparr>
   \<and> list_of_dlist (gatherSvgColors exampleEnv
         \<lparr>textSized = False, paints = [''#ff0000'', ''#00ff00'']\<rparr>) = [''#ff0000'', ''#00ff00'']
   \<and> deriveImageAssetTypeAndUri exampleEnv
         \<lparr>url = ''data:image/svg+xml;charset=utf-8,%23ff0000%20%2300ff00'', width = 24,
          height = 24, aspectRatio = None\<rparr> None
       = ([], Inl InvalidCharacterError)"
proof -
  let ?u = "''data:image/svg+xml;charset=utf-8,%23ff0000%20%2300ff00''"
  let ?p = "\<lparr>mediaType = ''image/svg+xml;charset=utf-8'', contentType = ''image/svg+xml'',
             base64 = False, data = ''%23ff0000%20%2300ff00''\<rparr>"
  have p: "parseDataUrl exampleEnv ?u = Some ?p"
    by (simp add: exampleEnv_def exampleParseDataUrl_def)
  have s: "sanitizeImageDataUrl exampleEnv ?u = ([], Inr (Some ?u))"
    unfolding sanitizeImageDataUrl_def p by (simp add: SVG_MEDIA_TYPE_def)
  have g: "getParsedDataUrlData exampleEnv ?p = Inr ''#ff0000 #00ff00''"
    by (simp add: example_eval)
  have x: "parseSvgXml exampleEnv ''#ff0000 #00ff00''
     = Inr \<lparr>textSized = False, paints = [''#ff0000'', ''#00ff00'']\<rparr>"
    by (simp add: example_eval)
  have c: "list_of_dlist (gatherSvgColors exampleEnv
         \<lparr>textSized = False, paints = [''#ff0000'', ''#00ff00'']\<rparr>) = [''#ff0000'', ''#00ff00'']"
    by (simp add: example_eval)
  have d: "deriveImageAssetTypeAndUri exampleEnv
         \<lparr>url = ?u, width = 24, height = 24, aspectRatio = None\<rparr> None
       = ([], Inl InvalidCharacterError)"
    by (rule classify_percent_encoded [where parsed = ?p]) (simp_all add: p)
  from s p g x c d show ?thesis
    by simp
qed

text \<open>
  For a payload that \<^verbatim>\<open>atob\<close> decodes the code does what C5 says: with two or more
  distinct colours, none of them \<^verbatim>\<open>currentcolor\<close>, and no requested type, the result is
  the type Picture and its data URI is the URL of the image itself, unchanged; nothing is
  shown to the user.
\<close>

lemma multicolor_decodable_svg:
  assumes svg: "decodableSvgDataUrl env (url img) svgElt"
    and many: "2 \<le> Dlist.length (gatherSvgColors env svgElt)"
    and nocur: "\<not> Dlist.member (gatherSvgColors env svgElt) ''currentcolor''"
  shows "deriveImageAssetTypeAndUri env img None =
           ([], Inr (Some \<lparr>dataUri = url img, assetType = Picture, iconColor = None\<rparr>))"
proof -
  from svg obtain parsed xml where p: "parseDataUrl env (url img) = Some parsed"
    "contentType parsed = SVG_CONTENT_TYPE" "atob (data parsed) = Inr xml"
    "parseSvgXml env xml = Inr svgElt"
    by (rule classify_svg_unfold)
  from many have "\<not> Dlist.length (gatherSvgColors env svgElt) \<le> 1"
    by simp
  with nocur show ?thesis
    by (simp add: deriveImageAssetTypeAndUri_def p Let_def)
qed

lemma multicolor_decodable_svg_example:
  "decodableSvgDataUrl exampleEnv ''data:image/svg+xml;base64,I2ZmMDAwMCAjMDBmZjAw''
     \<lparr>textSized = False, paints = [''#ff0000'', ''#00ff00'']\<rparr>
   \<and> 2 \<le> Dlist.length (gatherSvgColors exampleEnv
         \<lparr>textSized = False, paints = [''#ff0000'', ''#00ff00'']\<rparr>)
   \<and> \<not> Dlist.member (gatherSvgColors exampleEnv
         \<lparr>textSized = False, paints = [''#ff0000'', ''#00ff00'']\<rparr>) ''currentcolor''
   \<and> deriveImageAssetTypeAndUri exampleEnv
         \<lparr>url = ''data:image/svg+xml;base64,I2ZmMDAwMCAjMDBmZjAw'', width = 24, height = 24,
          aspectRatio = None\<rparr> None
       = ([], Inr (Some \<lparr>dataUri = ''data:image/svg+xml;base64,I2ZmMDAwMCAjMDBmZjAw'',
                         assetType = Picture, iconColor = None\<rparr>))"
proof -
  let ?img = "\<lparr>url = ''data:image/svg+xml;base64,I2ZmMDAwMCAjMDBmZjAw'', width = 24,
               height = 24, aspectRatio = None\<rparr>"
  let ?elt = "\<lparr>textSized = False, paints = [''#ff0000'', ''#00ff00'']\<rparr>"
  have s: "decodableSvgDataUrl exampleEnv (url ?img) ?elt"
    by (simp add: example_eval)
  have m: "2 \<le> Dlist.length (gatherSvgColors exampleEnv ?elt)"
    by (simp add: example_eval)
  have n: "\<not> Dlist.member (gatherSvgColors exampleEnv ?elt) ''currentcolor''"
    by (simp add: example_eval)
  from multicolor_decodable_svg [OF s m n] s m n show ?thesis
    by simp
qed

section \<open>Sanitizing: results\<close>

text \<open>
  C6. For every data URL given to \<^verbatim>\<open>sanitizeImageDataUrl\<close>: when it parses with the media
  type \<^verbatim>\<open>image/svg+xml\<close> and \<^verbatim>\<open>processSvg\<close> answers with the status failure, the result
  is \<^verbatim>\<open>undefined\<close> and nothing is thrown; when \<^verbatim>\<open>processSvg\<close> answers with the status
  success, the result is \<^verbatim>\<open>asSvgDataUrl\<close> of the XML it returned; when the URL does not
  parse as a data URL, or parses with another media type, the result is the input itself
  and \<^verbatim>\<open>processSvg\<close> is not called.
\<close>

theorem sanitizeImageDataUrl_cases:
  "(parseDataUrl env dataUrl = Some parsed \<and> mediaType parsed = ''image/svg+xml''
      \<and> getParsedDataUrlData env parsed = Inr xml \<and> processSvg env xml = Inr StatusFailure
    \<longrightarrow> sanitizeImageDataUrl env dataUrl = ([ProcessSvgCall xml], Inr None))
   \<and> (parseDataUrl env dataUrl = Some parsed \<and> mediaType parsed = ''image/svg+xml''
      \<and> getParsedDataUrlData env parsed = Inr xml
      \<and> processSvg env xml = Inr (StatusSuccess resXml ratio)
    \<longrightarrow> sanitizeImageDataUrl env dataUrl
          = ([ProcessSvgCall xml], Inr (Some (asSvgDataUrl env resXml))))
   \<and> ((case parseDataUrl env dataUrl of
          None \<Rightarrow> True
        | Some other \<Rightarrow> mediaType other \<noteq> ''image/svg+xml'')
    \<longrightarrow> sanitizeImageDataUrl env dataUrl = ([], Inr (Some dataUrl)))"
proof (intro conjI impI)
  assume "parseDataUrl env dataUrl = Some parsed \<and> mediaType parsed = ''image/svg+xml''
      \<and> getParsedDataUrlData env parsed = Inr xml \<and> processSvg env xml = Inr StatusFailure"
  then show "sanitizeImageDataUrl env dataUrl = ([ProcessSvgCall xml], Inr None)"
    by (simp add: sanitizeImageDataUrl_def asSanitizedSvgUrl_def SVG_MEDIA_TYPE_def)
next
  assume "parseDataUrl env dataUrl = Some parsed \<and> mediaType parsed = ''image/svg+xml''
      \<and> getParsedDataUrlData env parsed = Inr xml
      \<and> processSvg env xml = Inr (StatusSuccess resXml ratio)"
  then show "sanitizeImageDataUrl env dataUrl
          = ([ProcessSvgCall xml], Inr (Some (asSvgDataUrl env resXml)))"
    by (simp add: sanitizeImageDataUrl_def asSanitizedSvgUrl_def SVG_MEDIA_TYPE_def)
next
  assume "case parseDataUrl env dataUrl of
          None \<Rightarrow> True
        | Some other \<Rightarrow> mediaType other \<noteq> ''image/svg+xml''"
  then show "sanitizeImageDataUrl env dataUrl = ([], Inr (Some dataUrl))"
    by (cases "parseDataUrl env dataUrl") (simp_all add: sanitizeImageDataUrl_def SVG_MEDIA_TYPE_def)
qed

theorem sanitizeImageDataUrl_cases_witness:
  "sanitizeImageDataUrl failingProcessSvg ''data:image/svg+xml;base64,I2ZmMDAwMA==''
     = ([ProcessSvgCall ''#ff0000''], Inr None)
   \<and> sanitizeImageDataUrl exampleEnv ''data:image/svg+xml;base64,I2ZmMDAwMA==''
     = ([ProcessSvgCall ''#ff0000''], Inr (Some ''data:image/svg+xml,#ff0000''))
   \<and> sanitizeImageDataUrl exampleEnv ''data:image/png;base64,iVBORw0KGgo=''
     = ([], Inr (Some ''data:image/png;base64,iVBORw0KGgo=''))
   \<and> sanitizeImageDataUrl exampleEnv ''https://example.com/a.png''
     = ([], Inr (Some ''https://example.com/a.png''))"
proof -
  let ?svg = "''data:image/svg+xml;base64,I2ZmMDAwMA==''"
  let ?parsed = "\<lparr>mediaType = ''image/svg+xml'', contentType = ''image/svg+xml'',
                   base64 = True, data = ''I2ZmMDAwMA==''\<rparr>"
  have f: "parseDataUrl failingProcessSvg ?svg = Some ?parsed
      \<and> mediaType ?parsed = ''image/svg+xml''
      \<and> getParsedDataUrlData failingProcessSvg ?parsed = Inr ''#ff0000''
      \<and> processSvg failingProcessSvg ''#ff0000'' = Inr StatusFailure"
    by (simp add: failingProcessSvg_def example_eval)
  have s: "parseDataUrl exampleEnv ?svg = Some ?parsed
      \<and> mediaType ?parsed = ''image/svg+xml''
      \<and> getParsedDataUrlData exampleEnv ?parsed = Inr ''#ff0000''
      \<and> processSvg exampleEnv ''#ff0000'' = Inr (StatusSuccess ''#ff0000'' None)"
    by (simp add: example_eval)
  have p: "case parseDataUrl exampleEnv ''data:image/png;base64,iVBORw0KGgo='' of
          None \<Rightarrow> True
        | Some other \<Rightarrow> mediaType other \<noteq> ''image/svg+xml''"
    by (simp add: example_eval)
  have n: "case parseDataUrl exampleEnv ''https://example.com/a.png'' of
          None \<Rightarrow> True
        | Some other \<Rightarrow> mediaType other \<noteq> ''image/svg+xml''"
    by (simp add: example_eval)
  have "sanitizeImageDataUrl failingProcessSvg ?svg = ([ProcessSvgCall ''#ff0000''], Inr None)"
    using sanitizeImageDataUrl_cases [of failingProcessSvg ?svg ?parsed "''#ff0000''"] f
    by blast
  moreover have "sanitizeImageDataUrl exampleEnv ?svg
     = ([ProcessSvgCall ''#ff0000''], Inr (Some ''data:image/svg+xml,#ff0000''))"
    using sanitizeImageDataUrl_cases [of exampleEnv ?svg ?parsed "''#ff0000''" "''#ff0000''" None] s
    by (simp add: exampleEnv_def)
  moreover have "sanitizeImageDataUrl exampleEnv ''data:image/png;base64,iVBORw0KGgo=''
     = ([], Inr (Some ''data:image/png;base64,iVBORw0KGgo=''))"
    using sanitizeImageDataUrl_cases [of exampleEnv "''data:image/png;base64,iVBORw0KGgo=''"] p
    by blast
  moreover have "sanitizeImageDataUrl exampleEnv ''https://example.com/a.png''
     = ([], Inr (Some ''https://example.com/a.png''))"
    using sanitizeImageDataUrl_cases [of exampleEnv "''https://example.com/a.png''"] n
    by blast
  ultimately show ?thesis
    by simp
qed

section \<open>Downscaling: results\<close>

lemma downscaleCalls_tryDownscale:
  "downscaleCalls (fst (tryDownscale env this)) =
     (if width this < MaxImageDim \<and> height this < MaxImageDim
         \<and> int (length (url this)) < DownscaleImageSizeThreshold
      then []
      else [(url this,
             if width this > height this then min (width this) MaxImageDim else 0,
             if width this \<le> height this then min (height this) MaxImageDim else 0)])"
  by (simp add: tryDownscale_def Let_def split: sum.splits)

text \<open>
  C7. For every image: when the width and the height are below 4096 and the URL is
  shorter than 4 MiB (4194304), \<^verbatim>\<open>tryDownscale\<close> changes nothing and calls nothing;
  otherwise it calls \<^verbatim>\<open>downscale\<close> once, on the URL of the image, and the target has the
  larger of width and height clamped to 4096 on its own side and 0 on the other side (the
  height side when width and height are equal); for the width 5000 and the height 2000
  the target is the width 4096 and the height 0.
\<close>

theorem tryDownscale_target:
  "(width this < 4096 \<and> height this < 4096 \<and> length (url this) < 4194304
      \<longrightarrow> tryDownscale env this = ([], this))
   \<and> (\<not> (width this < 4096 \<and> height this < 4096 \<and> length (url this) < 4194304)
      \<longrightarrow> downscaleCalls (fst (tryDownscale env this)) =
            [(url this,
              if width this > height this
              then (min (max (width this) (height this)) 4096, 0)
              else (0, min (max (width this) (height this)) 4096))])
   \<and> downscaleCalls (fst (tryDownscale env \<lparr>url = u, width = 5000, height = 2000, aspectRatio = a\<rparr>))
       = [(u, 4096, 0)]"
proof (intro conjI impI)
  assume "width this < 4096 \<and> height this < 4096 \<and> length (url this) < 4194304"
  then show "tryDownscale env this = ([], this)"
    by (simp add: tryDownscale_def MaxImageDim_def DownscaleImageSizeThreshold_def)
next
  assume big: "\<not> (width this < 4096 \<and> height this < 4096 \<and> length (url this) < 4194304)"
  then have "\<not> (width this < MaxImageDim \<and> height this < MaxImageDim
         \<and> int (length (url this)) < DownscaleImageSizeThreshold)"
    by (simp add: MaxImageDim_def DownscaleImageSizeThreshold_def)
  then have "downscaleCalls (fst (tryDownscale env this)) =
      [(url this,
             if width this > height this then min (width this) MaxImageDim else 0,
             if width this \<le> height this then min (height this) MaxImageDim else 0)]"
    by (simp only: downscaleCalls_tryDownscale if_False)
  then show "downscaleCalls (fst (tryDownscale env this)) =
            [(url this,
              if width this > height this
              then (min (max (width this) (height this)) 4096, 0)
              else (0, min (max (width this) (height this)) 4096))]"
    by (simp add: MaxImageDim_def max_def)
next
  show "downscaleCalls (fst (tryDownscale env \<lparr>url = u, width = 5000, height = 2000, aspectRatio = a\<rparr>))
       = [(u, 4096, 0)]"
    by (simp add: downscaleCalls_tryDownscale MaxImageDim_def)
qed

theorem tryDownscale_target_witness:
  "tryDownscale exampleEnv
      \<lparr>url = ''data:image/png;base64,iVBORw0KGgo='', width = 800, height = 600, aspectRatio = None\<rparr>
     = ([], \<lparr>url = ''data:image/png;base64,iVBORw0KGgo='', width = 800, height = 600,
             aspectRatio = None\<rparr>)
   \<and> downscaleCalls (fst (tryDownscale exampleEnv
        \<lparr>url = ''data:image/png;base64,iVBORw0KGgo='', width = 3000, height = 6000,
         aspectRatio = None\<rparr>))
     = [(''data:image/png;base64,iVBORw0KGgo='', 0, 4096)]
   \<and> downscaleCalls (fst (tryDownscale exampleEnv
        \<lparr>url = ''data:image/png;base64,iVBORw0KGgo='', width = 5000, height = 2000,
         aspectRatio = None\<rparr>))
     = [(''data:image/png;base64,iVBORw0KGgo='', 4096, 0)]"
  using
    tryDownscale_target [of "\<lparr>url = ''data:image/png;base64,iVBORw0KGgo='', width = 800,
       height = 600, aspectRatio = None\<rparr>" exampleEnv]
    tryDownscale_target [of "\<lparr>url = ''data:image/png;base64,iVBORw0KGgo='', width = 3000,
       height = 6000, aspectRatio = None\<rparr>" exampleEnv "''data:image/png;base64,iVBORw0KGgo=''" None]
  by simp

text \<open>
  C8. The claim does not hold of the code where it says that every failure leaves the URL
  as it was: the image of width 5000 and height 2000 goes through \<^verbatim>\<open>downscale\<close>, which
  resolves, and then \<^verbatim>\<open>deriveImageSize\<close> rejects; the call still returns normally and
  logs the failure, the width and the height are the old ones, but the URL is the
  downscaled one, since \<^verbatim>\<open>this.url\<close> is assigned before the size is awaited.
\<close>

theorem tryDownscale_keeps_new_url_on_failure:
  "tryDownscale resultUnreadable
      \<lparr>url = ''data:image/png;base64,iVBORw0KGgo='', width = 5000, height = 2000, aspectRatio = None\<rparr>
     = ([DownscaleCall ''data:image/png;base64,iVBORw0KGgo='' 4096 0,
         LogFailedToDownscale 34 5000 2000
           (Rejected ''Browser cannot load this image - if you believe this is a valid image file, please share it with team@plasmic.app.'')],
        \<lparr>url = ''data:,'', width = 5000, height = 2000, aspectRatio = None\<rparr>)"
  by (simp add: tryDownscale_def resultUnreadable_def exampleEnv_def deriveImageSize_def
      MaxImageDim_def DownscaleImageSizeThreshold_def)

text \<open>
  What does hold when a step fails: a rejection of \<^verbatim>\<open>downscale\<close> itself leaves the image
  as it was, and whenever the failure line is logged the width and the height are the old
  ones. \<^verbatim>\<open>tryDownscale\<close> has no failing result at all: the \<^verbatim>\<open>catch\<close> block covers
  both awaited calls.
\<close>

lemma tryDownscale_downscale_rejects:
  assumes "downscale env (url this)
             (if width this > height this then min (width this) MaxImageDim else 0)
             (if width this \<le> height this then min (height this) MaxImageDim else 0) = Inl e"
  shows "snd (tryDownscale env this) = this"
  using assms by (simp add: tryDownscale_def Let_def)

lemma tryDownscale_failure_keeps_size:
  assumes "LogFailedToDownscale n w h e \<in> set (fst (tryDownscale env this))"
  shows "width (snd (tryDownscale env this)) = width this
         \<and> height (snd (tryDownscale env this)) = height this"
  using assms by (auto simp: tryDownscale_def Let_def split: if_splits sum.splits)

section \<open>Uploading: results\<close>

lemma uploadCalls_append: "uploadCalls (xs @ ys) = uploadCalls xs @ uploadCalls ys"
  by (induction xs rule: uploadCalls.induct) simp_all

lemma uploadCalls_tryDownscale: "uploadCalls (fst (tryDownscale env this)) = []"
  by (simp add: tryDownscale_def Let_def split: sum.splits)

lemma uploadCalls_derive:
  "uploadCalls (fst (deriveImageAssetTypeAndUri env img type)) = []"
  by (simp add: deriveImageAssetTypeAndUri_def Let_def split: option.splits sum.splits)

lemma maybeUploadImage_of_icon:
  assumes "deriveImageAssetTypeAndUri env img type = (evs, Inr (Some res))"
    and "assetType res = Icon"
  shows "maybeUploadImage env img type file =
            (evs @ fst (tryDownscale env
                          \<lparr>url = dataUri res, width = width img, height = height img,
                           aspectRatio = scaledRoundedAspectRatio env img\<rparr>),
             Inr \<lparr>imageResult = Some (snd (tryDownscale env
                          \<lparr>url = dataUri res, width = width img, height = height img,
                           aspectRatio = scaledRoundedAspectRatio env img\<rparr>)),
                  opts = Some \<lparr>optsType = Icon, optsIconColor = iconColor res,
                               optsName = nameOfFile file\<rparr>\<rparr>)"
  using assms by (simp add: maybeUploadImage_def Let_def split: prod.splits)

lemma uploadCalls_of_icon:
  assumes "deriveImageAssetTypeAndUri env img type = (evs, Inr (Some res))"
    and "assetType res = Icon"
  shows "uploadCalls (fst (maybeUploadImage env img type file)) = []"
proof -
  from assms(1) have "uploadCalls evs = []"
    using uploadCalls_derive [of env img type] by simp
  then show ?thesis
    by (simp add: maybeUploadImage_of_icon [OF assms] uploadCalls_append uploadCalls_tryDownscale)
qed

text \<open>
  C9. For every image whose classification returns the type Icon, \<^verbatim>\<open>maybeUploadImage\<close>
  makes no call to \<^verbatim>\<open>uploadImageFile\<close>: it returns the image built from the classified
  data URI and the width and height of the input image, after \<^verbatim>\<open>tryDownscale\<close> has run
  on it, together with the classified type and icon colour. Whenever
  \<^verbatim>\<open>uploadImageFile\<close> is called, the classification has returned the type Picture.
\<close>

theorem maybeUploadImage_icon:
  "(deriveImageAssetTypeAndUri env img type = (evs, Inr (Some res)) \<and> assetType res = Icon
      \<longrightarrow> maybeUploadImage env img type file =
            (evs @ fst (tryDownscale env
                          \<lparr>url = dataUri res, width = width img, height = height img,
                           aspectRatio = scaledRoundedAspectRatio env img\<rparr>),
             Inr \<lparr>imageResult = Some (snd (tryDownscale env
                          \<lparr>url = dataUri res, width = width img, height = height img,
                           aspectRatio = scaledRoundedAspectRatio env img\<rparr>)),
                  opts = Some \<lparr>optsType = Icon, optsIconColor = iconColor res,
                               optsName = nameOfFile file\<rparr>\<rparr>)
          \<and> uploadCalls (fst (maybeUploadImage env img type file)) = [])
   \<and> (uploadCalls (fst (maybeUploadImage env img type file)) \<noteq> []
      \<longrightarrow> (\<exists>evs' res'. deriveImageAssetTypeAndUri env img type = (evs', Inr (Some res'))
             \<and> assetType res' = Picture))"
proof (intro conjI impI)
  assume a: "deriveImageAssetTypeAndUri env img type = (evs, Inr (Some res)) \<and> assetType res = Icon"
  then show "maybeUploadImage env img type file =
            (evs @ fst (tryDownscale env
                          \<lparr>url = dataUri res, width = width img, height = height img,
                           aspectRatio = scaledRoundedAspectRatio env img\<rparr>),
             Inr \<lparr>imageResult = Some (snd (tryDownscale env
                          \<lparr>url = dataUri res, width = width img, height = height img,
                           aspectRatio = scaledRoundedAspectRatio env img\<rparr>)),
                  opts = Some \<lparr>optsType = Icon, optsIconColor = iconColor res,
                               optsName = nameOfFile file\<rparr>\<rparr>)"
    by (simp add: maybeUploadImage_of_icon)
  from a show "uploadCalls (fst (maybeUploadImage env img type file)) = []"
    by (simp add: uploadCalls_of_icon)
next
  assume u: "uploadCalls (fst (maybeUploadImage env img type file)) \<noteq> []"
  obtain evs' r where d: "deriveImageAssetTypeAndUri env img type = (evs', r)"
    by (cases "deriveImageAssetTypeAndUri env img type")
  then have e: "uploadCalls evs' = []"
    using uploadCalls_derive [of env img type] by simp
  show "\<exists>evs' res'. deriveImageAssetTypeAndUri env img type = (evs', Inr (Some res'))
             \<and> assetType res' = Picture"
  proof (cases r)
    case (Inl err)
    with u d e show ?thesis
      by (simp add: maybeUploadImage_def)
  next
    case (Inr classified)
    show ?thesis
    proof (cases classified)
      case None
      with u d e Inr show ?thesis
        by (simp add: maybeUploadImage_def)
    next
      case (Some res')
      show ?thesis
      proof (cases "assetType res'")
        case Picture
        with d Inr Some show ?thesis
          by simp
      next
        case Icon
        with d Inr Some have "uploadCalls (fst (maybeUploadImage env img type file)) = []"
          by (simp add: uploadCalls_of_icon)
        with u show ?thesis
          by simp
      qed
    qed
  qed
qed

theorem maybeUploadImage_icon_witness:
  "deriveImageAssetTypeAndUri exampleEnv
      \<lparr>url = ''data:image/svg+xml;base64,I2ZmMDAwMA=='', width = 24, height = 24,
       aspectRatio = None\<rparr> None
     = ([], Inr (Some \<lparr>dataUri = ''data:image/svg+xml,1em:'', assetType = Icon,
                       iconColor = Some ''#ff0000''\<rparr>))
   \<and> maybeUploadImage exampleEnv
      \<lparr>url = ''data:image/svg+xml;base64,I2ZmMDAwMA=='', width = 24, height = 24,
       aspectRatio = None\<rparr> None (Some (IsString ''dot.svg''))
     = ([], Inr \<lparr>imageResult = Some \<lparr>url = ''data:image/svg+xml,1em:'', width = 24,
                                      height = 24, aspectRatio = None\<rparr>,
                 opts = Some \<lparr>optsType = Icon, optsIconColor = Some ''#ff0000'',
                              optsName = Some ''dot.svg''\<rparr>\<rparr>)
   \<and> uploadCalls (fst (maybeUploadImage exampleEnv
      \<lparr>url = ''data:image/svg+xml;base64,I2ZmMDAwMCAjMDBmZjAw'', width = 24, height = 24,
       aspectRatio = None\<rparr> None None)) = [''I2ZmMDAwMCAjMDBmZjAw'']
   \<and> (\<exists>evs' res'. deriveImageAssetTypeAndUri exampleEnv
      \<lparr>url = ''data:image/svg+xml;base64,I2ZmMDAwMCAjMDBmZjAw'', width = 24, height = 24,
       aspectRatio = None\<rparr> None = (evs', Inr (Some res')) \<and> assetType res' = Picture)"
proof -
  let ?img = "\<lparr>url = ''data:image/svg+xml;base64,I2ZmMDAwMA=='', width = 24, height = 24,
       aspectRatio = None\<rparr>"
  let ?res = "\<lparr>dataUri = ''data:image/svg+xml,1em:'', assetType = Icon,
                       iconColor = Some ''#ff0000''\<rparr>"
  let ?pic = "\<lparr>url = ''data:image/svg+xml;base64,I2ZmMDAwMCAjMDBmZjAw'', width = 24,
       height = 24, aspectRatio = None\<rparr>"
  have d: "deriveImageAssetTypeAndUri exampleEnv ?img None = ([], Inr (Some ?res))"
    by (simp add: deriveImageAssetTypeAndUri_def SVG_CONTENT_TYPE_def SVG_MEDIA_TYPE_def
        example_eval)
  have t: "tryDownscale exampleEnv \<lparr>url = ''data:image/svg+xml,1em:'', width = 24, height = 24,
       aspectRatio = None\<rparr> = ([], \<lparr>url = ''data:image/svg+xml,1em:'', width = 24,
       height = 24, aspectRatio = None\<rparr>)"
    by (simp add: tryDownscale_def MaxImageDim_def DownscaleImageSizeThreshold_def)
  have m: "maybeUploadImage exampleEnv ?img None (Some (IsString ''dot.svg''))
     = ([], Inr \<lparr>imageResult = Some \<lparr>url = ''data:image/svg+xml,1em:'', width = 24,
                                      height = 24, aspectRatio = None\<rparr>,
                 opts = Some \<lparr>optsType = Icon, optsIconColor = Some ''#ff0000'',
                              optsName = Some ''dot.svg''\<rparr>\<rparr>)"
    using maybeUploadImage_icon [of exampleEnv ?img None "[]" ?res "Some (IsString ''dot.svg'')"] d
    by (simp add: t scaledRoundedAspectRatio_def nameOfFile_def)
  have dp: "deriveImageAssetTypeAndUri exampleEnv ?pic None
     = ([], Inr (Some \<lparr>dataUri = ''data:image/svg+xml;base64,I2ZmMDAwMCAjMDBmZjAw'',
                       assetType = Picture, iconColor = None\<rparr>))"
    by (simp add: deriveImageAssetTypeAndUri_def SVG_CONTENT_TYPE_def SVG_MEDIA_TYPE_def
        example_eval)
  have u: "uploadCalls (fst (maybeUploadImage exampleEnv ?pic None None))
     = [''I2ZmMDAwMCAjMDBmZjAw'']"
    unfolding maybeUploadImage_def dp
    by (simp add: Let_def exampleEnv_def dropThroughComma_def)
  then have "uploadCalls (fst (maybeUploadImage exampleEnv ?pic None None)) \<noteq> []"
    by simp
  then have "\<exists>evs' res'. deriveImageAssetTypeAndUri exampleEnv ?pic None
       = (evs', Inr (Some res')) \<and> assetType res' = Picture"
    using maybeUploadImage_icon [of exampleEnv ?pic None _ _ None] by blast
  with d m u show ?thesis
    by simp
qed

text \<open>
  C10. For every image whose classification returns \<^verbatim>\<open>undefined\<close>, as it does when the
  URL does not parse as a data URL, \<^verbatim>\<open>maybeUploadImage\<close> returns the empty object, with
  neither \<^verbatim>\<open>imageResult\<close> nor \<^verbatim>\<open>opts\<close>; it does not throw, and it shows nothing beyond
  the notification of the classification.
\<close>

theorem maybeUploadImage_unclassified:
  "(parseDataUrl env (url img) = None
      \<longrightarrow> deriveImageAssetTypeAndUri env img type
            = ([NotificationError ''Error loading image''], Inr None))
   \<and> (deriveImageAssetTypeAndUri env img type = (evs, Inr None)
      \<longrightarrow> maybeUploadImage env img type file = (evs, Inr \<lparr>imageResult = None, opts = None\<rparr>))"
  by (simp add: deriveImageAssetTypeAndUri_def maybeUploadImage_def emptyObject_def)

theorem maybeUploadImage_unclassified_witness:
  "parseDataUrl exampleEnv (url \<lparr>url = ''not a data url'', width = 10, height = 10,
       aspectRatio = None\<rparr>) = None
   \<and> deriveImageAssetTypeAndUri exampleEnv
       \<lparr>url = ''not a data url'', width = 10, height = 10, aspectRatio = None\<rparr> None
      = ([NotificationError ''Error loading image''], Inr None)
   \<and> maybeUploadImage exampleEnv
       \<lparr>url = ''not a data url'', width = 10, height = 10, aspectRatio = None\<rparr> None None
      = ([NotificationError ''Error loading image''], Inr \<lparr>imageResult = None, opts = None\<rparr>)"
proof -
  let ?img = "\<lparr>url = ''not a data url'', width = 10, height = 10, aspectRatio = None\<rparr>"
  have p: "parseDataUrl exampleEnv (url ?img) = None"
    by (simp add: exampleEnv_def exampleParseDataUrl_def)
  have d: "deriveImageAssetTypeAndUri exampleEnv ?img None
      = ([NotificationError ''Error loading image''], Inr None)"
    using maybeUploadImage_unclassified [of exampleEnv ?img None] p by blast
  have "maybeUploadImage exampleEnv ?img None None
      = ([NotificationError ''Error loading image''], Inr \<lparr>imageResult = None, opts = None\<rparr>)"
    using maybeUploadImage_unclassified [of exampleEnv ?img None
        "[NotificationError ''Error loading image'']" None] d by blast
  with p d show ?thesis
    by simp
qed

end
